theory Spec2Isabelle
  imports Complex_Main "HOL-Library.AList"
begin

section \<open>Python strings\<close>

text \<open>
  A Python \<open>str\<close> is a sequence of Unicode code points, so it is modelled as a list of
  code points and not as a list of bytes: \<open>str.strip\<close> removes code points such as
  U+3000 that are several bytes in UTF-8. A literal of the source is written
  \<open>str ''model''\<close>. Bytes (\<open>bytes\<close>, a request body) are a list of 8-bit characters.
\<close>

type_synonym pystr = "nat list"
type_synonym bytes = "char list"

definition str :: "string \<Rightarrow> pystr" where
  "str s = map of_char s"

text \<open>
  The code points that \<open>str.isspace\<close> accepts, which are the ones \<open>str.strip()\<close>
  removes when it is called without an argument.
\<close>

definition isspace :: "nat \<Rightarrow> bool" where
  "isspace c \<longleftrightarrow>
     (0x09 \<le> c \<and> c \<le> 0x0D) \<or> (0x1C \<le> c \<and> c \<le> 0x20) \<or> c = 0x85 \<or> c = 0xA0 \<or>
     c = 0x1680 \<or> (0x2000 \<le> c \<and> c \<le> 0x200A) \<or> c = 0x2028 \<or> c = 0x2029 \<or>
     c = 0x202F \<or> c = 0x205F \<or> c = 0x3000"

definition strip :: "pystr \<Rightarrow> pystr" where
  "strip s = rev (dropWhile isspace (rev (dropWhile isspace s)))"

text \<open>
  \<open>str.lower\<close>, one code point at a time. The source lowers header values only, which
  the framework decodes as Latin-1; below 256 this is what Python computes.
\<close>

definition lower_cp :: "nat \<Rightarrow> nat" where
  "lower_cp c =
     (if (0x41 \<le> c \<and> c \<le> 0x5A) \<or> (0xC0 \<le> c \<and> c \<le> 0xD6) \<or> (0xD8 \<le> c \<and> c \<le> 0xDE)
      then c + 32 else c)"

definition lower :: "pystr \<Rightarrow> pystr" where
  "lower s = map lower_cp s"

text \<open>\<open>sub in s\<close> on strings: \<open>sub\<close> occurs in \<open>s\<close> as a contiguous run.\<close>

fun starts_with :: "pystr \<Rightarrow> pystr \<Rightarrow> bool" where
  "starts_with [] s = True"
| "starts_with (x # xs) [] = False"
| "starts_with (x # xs) (y # ys) = (x = y \<and> starts_with xs ys)"

fun str_in :: "pystr \<Rightarrow> pystr \<Rightarrow> bool" where
  "str_in sub [] = (sub = [])"
| "str_in sub (y # ys) = (starts_with sub (y # ys) \<or> str_in sub ys)"

text \<open>\<open>s.split(sep, 1)[0]\<close> for a separator of one code point: \<open>s\<close> up to its first \<open>sep\<close>.\<close>

definition split1_head :: "nat \<Rightarrow> pystr \<Rightarrow> pystr" where
  "split1_head sep s = takeWhile (\<lambda>c. c \<noteq> sep) s"

definition slash :: nat where
  "slash = 0x2F"


section \<open>Configuration\<close>

text \<open>The module constants read from the environment at import time.\<close>

record config =
  UPSTREAM_BASE :: pystr
  DEFAULT_MODEL :: pystr
  AUTO_PULL :: bool
  MODELS_CACHE_TTL_SEC :: int


section \<open>Model selection\<close>

text \<open>
  \<open>_normalize_model\<close>. On a \<open>str\<close> the expression \<open>raw or ""\<close> is \<open>raw\<close>; the test
  \<open>"/" in m\<close> is membership of the code point.
\<close>

definition normalize_model :: "pystr \<Rightarrow> pystr" where
  "normalize_model raw =
     (let m = strip raw in
      if m = [] then []
      else if slash \<in> set m then strip (split1_head slash m)
      else m)"


section \<open>JSON values\<close>

text \<open>
  The values \<open>json.loads\<close> returns. \<open>JNone\<close> is Python's \<open>None\<close>: the decoded JSON
  \<open>null\<close>, and also the value of a variable or keyword argument that holds nothing. A
  \<open>dict\<close> keeps its items in insertion order, with one item per key. The proxy never
  computes with a float.
\<close>

typedecl pyfloat

datatype json =
    JNone
  | JBool bool
  | JInt int
  | JFloat pyfloat
  | JStr pystr
  | JList "json list"
  | JDict "(pystr \<times> json) list"


section \<open>Requests, responses and the backend\<close>

text \<open>
  The inbound request as the handler reads it. \<open>request.headers\<close> and
  \<open>request.query_params\<close> are read through their mapping interface (\<open>get\<close>, \<open>in\<close>,
  \<open>dict(...)\<close>), which gives one value for a key.
\<close>

record request =
  "method" :: pystr
  query_params :: "pystr \<rightharpoonup> pystr"
  headers :: "pystr \<rightharpoonup> pystr"
  body :: bytes

text \<open>
  The arguments of one \<open>httpx\<close> call: \<open>content\<close> is \<open>None\<close> or the bytes to send,
  \<open>json\<close> is \<open>JNone\<close> or the value to serialise.
\<close>

record upstream_request =
  o_method :: pystr
  url :: pystr
  params :: "pystr \<rightharpoonup> pystr"
  o_headers :: "pystr \<rightharpoonup> pystr"
  content :: "bytes option"
  json :: json

record response =
  status_code :: nat
  r_headers :: "pystr \<rightharpoonup> pystr"
  r_content :: bytes
  r_chunks :: "bytes list"

datatype exn =
    RequestError
  | HTTPStatusError nat
  | JSONDecodeError
  | AttributeError
  | TypeError

text \<open>
  The backend answers a request with a response, or the call raises. \<open>json.loads\<close> is a
  parameter as well: it gives \<open>None\<close> where Python raises.
\<close>

type_synonym backend = "upstream_request \<Rightarrow> exn + response"
type_synonym decoder = "bytes \<Rightarrow> json option"

text \<open>
  The module's globals \<open>_models_cache\<close> and \<open>_models_cache_ts\<close>, and the requests sent
  to the backend so far, oldest first. Time is a real number of seconds.
\<close>

record state =
  models_cache :: "pystr set"
  models_cache_ts :: real
  sent :: "upstream_request list"

definition http_get :: "pystr \<Rightarrow> upstream_request" where
  "http_get u =
     \<lparr>o_method = str ''GET'', url = u, params = Map.empty, o_headers = Map.empty,
      content = None, json = JNone\<rparr>"

definition http_post :: "pystr \<Rightarrow> json \<Rightarrow> upstream_request" where
  "http_post u j =
     \<lparr>o_method = str ''POST'', url = u, params = Map.empty, o_headers = Map.empty,
      content = None, json = j\<rparr>"

definition send :: "backend \<Rightarrow> upstream_request \<Rightarrow> state \<Rightarrow> (exn + response) \<times> state" where
  "send upstream rq s = (upstream rq, s\<lparr>sent := sent s @ [rq]\<rparr>)"

text \<open>\<open>Response.raise_for_status\<close> raises unless the status is 2xx.\<close>

definition is_success :: "nat \<Rightarrow> bool" where
  "is_success code \<longleftrightarrow> 200 \<le> code \<and> code < 300"


section \<open>Body rewriting\<close>

text \<open>
  \<open>_apply_model\<close>. \<open>AList.update\<close> is \<open>payload[k] = v\<close>: the item keeps its place when the
  key is there and goes last otherwise. \<open>setdefault\<close> writes only when the key is missing.
\<close>

definition apply_model :: "json \<Rightarrow> pystr \<Rightarrow> bool \<Rightarrow> json" where
  "apply_model payload model force =
     (case payload of
        JDict kvs \<Rightarrow>
          if force then JDict (AList.update (str ''model'') (JStr model) kvs)
          else if map_of kvs (str ''model'') = None
            then JDict (AList.update (str ''model'') (JStr model) kvs)
            else JDict kvs
      | _ \<Rightarrow> payload)"

text \<open>\<open>_pick_model\<close>: \<open>m_q\<close> is falsy when the parameter is missing or empty.\<close>

definition pick_model :: "config \<Rightarrow> request \<Rightarrow> pystr" where
  "pick_model cfg request =
     (let m = (case query_params request (str ''model'') of
                 None \<Rightarrow> []
               | Some m_q \<Rightarrow> if m_q = [] then [] else normalize_model m_q)
      in if m = [] then DEFAULT_MODEL cfg else m)"


section \<open>The cache of local models\<close>

text \<open>
  What \<open>for m in data.get("models", [])\<close> iterates over: \<open>data.get\<close> needs a dict; a list
  gives its items, a string its characters, a dict its keys; nothing else is iterable.
\<close>

definition models_entries :: "json \<Rightarrow> exn + json list" where
  "models_entries data =
     (case data of
        JDict kvs \<Rightarrow>
          (case map_of kvs (str ''models'') of
             None \<Rightarrow> Inr []
           | Some (JList ms) \<Rightarrow> Inr ms
           | Some (JStr cs) \<Rightarrow> Inr (map (\<lambda>c. JStr [c]) cs)
           | Some (JDict d) \<Rightarrow> Inr (map (\<lambda>kv. JStr (fst kv)) d)
           | Some _ \<Rightarrow> Inl TypeError)
      | _ \<Rightarrow> Inl AttributeError)"

text \<open>
  The loop body: \<open>m.get("name")\<close> needs a dict; a falsy name is skipped; a non-empty list
  or dict is unhashable and \<open>names.add\<close> raises. A truthy name that is not a string (a
  number, \<open>true\<close>) is added by the source; no \<open>str\<close> is equal to it and the cache is only
  ever asked about a \<open>str\<close>, so the cache of the model, which holds strings, leaves it out.
\<close>

fun add_names :: "json list \<Rightarrow> pystr set \<Rightarrow> exn + pystr set" where
  "add_names [] names = Inr names"
| "add_names (m # ms) names =
     (case m of
        JDict kvs \<Rightarrow>
          (case map_of kvs (str ''name'') of
             None \<Rightarrow> add_names ms names
           | Some (JStr name) \<Rightarrow> add_names ms (if name = [] then names else insert name names)
           | Some (JList xs) \<Rightarrow> if xs = [] then add_names ms names else Inl TypeError
           | Some (JDict d) \<Rightarrow> if d = [] then add_names ms names else Inl TypeError
           | Some _ \<Rightarrow> add_names ms names)
      | _ \<Rightarrow> Inl AttributeError)"

definition tags_request :: "config \<Rightarrow> upstream_request" where
  "tags_request cfg = http_get (UPSTREAM_BASE cfg @ str ''/api/tags'')"

definition fetch_local_models ::
  "config \<Rightarrow> decoder \<Rightarrow> backend \<Rightarrow> state \<Rightarrow> (exn + pystr set) \<times> state" where
  "fetch_local_models cfg loads upstream s =
     (case send upstream (tags_request cfg) s of
        (Inl e, s1) \<Rightarrow> (Inl e, s1)
      | (Inr r, s1) \<Rightarrow>
          if \<not> is_success (status_code r) then (Inl (HTTPStatusError (status_code r)), s1)
          else (case loads (r_content r) of
                  None \<Rightarrow> (Inl JSONDecodeError, s1)
                | Some data \<Rightarrow>
                    (case models_entries data of
                       Inl e \<Rightarrow> (Inl e, s1)
                     | Inr ms \<Rightarrow> (add_names ms {}, s1))))"

text \<open>\<open>_has_model\<close>; \<open>now\<close> is the reading of \<open>time.time()\<close>.\<close>

definition has_model ::
  "config \<Rightarrow> decoder \<Rightarrow> backend \<Rightarrow> real \<Rightarrow> pystr \<Rightarrow> state \<Rightarrow> (exn + bool) \<times> state" where
  "has_model cfg loads upstream now model s =
     (if now - models_cache_ts s > real_of_int (MODELS_CACHE_TTL_SEC cfg) then
        (case fetch_local_models cfg loads upstream s of
           (Inl e, s1) \<Rightarrow> (Inl e, s1)
         | (Inr names, s1) \<Rightarrow>
             (Inr (model \<in> names), s1\<lparr>models_cache := names, models_cache_ts := now\<rparr>))
      else (Inr (model \<in> models_cache s), s))"

definition pull_request :: "config \<Rightarrow> pystr \<Rightarrow> upstream_request" where
  "pull_request cfg model =
     http_post (UPSTREAM_BASE cfg @ str ''/api/pull'')
       (JDict [(str ''model'', JStr model), (str ''stream'', JBool False)])"

text \<open>\<open>_pull_model\<close>: the timestamp is reset only after \<open>raise_for_status\<close> has passed.\<close>

definition pull_model :: "config \<Rightarrow> backend \<Rightarrow> pystr \<Rightarrow> state \<Rightarrow> (exn + unit) \<times> state" where
  "pull_model cfg upstream model s =
     (case send upstream (pull_request cfg model) s of
        (Inl e, s1) \<Rightarrow> (Inl e, s1)
      | (Inr r, s1) \<Rightarrow>
          if \<not> is_success (status_code r) then (Inl (HTTPStatusError (status_code r)), s1)
          else (Inr (), s1\<lparr>models_cache_ts := 0\<rparr>))"

definition ensure_model ::
  "config \<Rightarrow> decoder \<Rightarrow> backend \<Rightarrow> real \<Rightarrow> pystr \<Rightarrow> state \<Rightarrow> (exn + unit) \<times> state" where
  "ensure_model cfg loads upstream now model s =
     (if \<not> AUTO_PULL cfg then (Inr (), s)
      else (case has_model cfg loads upstream now model s of
              (Inl e, s1) \<Rightarrow> (Inl e, s1)
            | (Inr has, s1) \<Rightarrow>
                if \<not> has then pull_model cfg upstream model s1 else (Inr (), s1)))"


section \<open>Route handlers\<close>

definition chat_completions_probe :: "config \<Rightarrow> json" where
  "chat_completions_probe cfg =
     JDict [(str ''ok'', JBool True),
            (str ''note'', JStr (str ''Use POST /v1/chat/completions. Proxy is alive.'')),
            (str ''default_model'', JStr (DEFAULT_MODEL cfg)),
            (str ''auto_pull'', JBool (AUTO_PULL cfg))]"

definition models_request :: "config \<Rightarrow> upstream_request" where
  "models_request cfg = http_get (UPSTREAM_BASE cfg @ str ''/v1/models'')"

text \<open>\<open>models\<close>: a transport error and an undecodable 200 body raise; any other status falls back.\<close>

definition models :: "config \<Rightarrow> decoder \<Rightarrow> backend \<Rightarrow> state \<Rightarrow> (exn + json) \<times> state" where
  "models cfg loads upstream s =
     (case send upstream (models_request cfg) s of
        (Inl e, s1) \<Rightarrow> (Inl e, s1)
      | (Inr r, s1) \<Rightarrow>
          if status_code r = 200 then
            (case loads (r_content r) of
               None \<Rightarrow> (Inl JSONDecodeError, s1)
             | Some j \<Rightarrow> (Inr j, s1))
          else (Inr (JDict [(str ''object'', JStr (str ''list'')),
                            (str ''data'',
                             JList [JDict [(str ''id'', JStr (DEFAULT_MODEL cfg)),
                                           (str ''object'', JStr (str ''model'')),
                                           (str ''owned_by'', JStr (str ''ollama''))]])]),
                s1))"

text \<open>
  \<open>request.headers.get("content-type", "")\<close>, then steps 3 and 4 of \<open>proxy_v1\<close> and the
  body handling after them: the arguments of \<open>client.request\<close>. \<open>pop(k, None)\<close> removes
  a key if it is there. Inside the \<open>try\<close>, only \<open>request.json()\<close> can raise, and then
  \<open>body_bytes\<close> has not been emptied yet. The last step tests \<open>json_payload is None\<close>,
  which a decoded \<open>null\<close> satisfies too.
\<close>

definition content_type :: "request \<Rightarrow> pystr" where
  "content_type request =
     (case headers request (str ''content-type'') of None \<Rightarrow> [] | Some v \<Rightarrow> v)"

definition outbound :: "config \<Rightarrow> decoder \<Rightarrow> pystr \<Rightarrow> request \<Rightarrow> pystr \<Rightarrow> upstream_request" where
  "outbound cfg loads path request model =
     (let upstream_url = UPSTREAM_BASE cfg @ str ''/v1/'' @ path;
          hdrs = (headers request)
                   (str ''content-length'' := None, str ''transfer-encoding'' := None,
                    str ''host'' := None);
          prms = (query_params request)(str ''model'' := None);
          body_bytes = body request;
          (json_payload, body_bytes) =
            (if str_in (str ''application/json'') (lower (content_type request)) \<and>
                body_bytes \<noteq> [] then
               (case loads body_bytes of
                  None \<Rightarrow> (JNone, body_bytes)
                | Some payload \<Rightarrow>
                    (let force = (str ''model'' \<in> dom (query_params request))
                     in (apply_model payload model force, [])))
             else (JNone, body_bytes))
      in \<lparr>o_method = method request, url = upstream_url, params = prms, o_headers = hdrs,
          content = (if json_payload = JNone then Some body_bytes else None),
          json = json_payload\<rparr>)"

text \<open>Step 5: a response announcing an event stream is passed on in chunks, any other whole.\<close>

datatype client_response =
    StreamingResponse "bytes list" nat "pystr \<rightharpoonup> pystr"
  | Response bytes nat "pystr \<rightharpoonup> pystr"

definition relay :: "response \<Rightarrow> client_response" where
  "relay r =
     (let ct = (case r_headers r (str ''content-type'') of None \<Rightarrow> [] | Some v \<Rightarrow> v);
          resp_headers = (r_headers r)(str ''content-encoding'' := None)
      in if str_in (str ''text/event-stream'') (lower ct)
         then StreamingResponse (r_chunks r) (status_code r) resp_headers
         else Response (r_content r) (status_code r) resp_headers)"

definition proxy_v1 ::
  "config \<Rightarrow> decoder \<Rightarrow> backend \<Rightarrow> real \<Rightarrow> pystr \<Rightarrow> request \<Rightarrow> state
     \<Rightarrow> (exn + client_response) \<times> state" where
  "proxy_v1 cfg loads upstream now path request s =
     (let model = pick_model cfg request in
      case ensure_model cfg loads upstream now model s of
        (Inl e, s1) \<Rightarrow> (Inl e, s1)
      | (Inr u, s1) \<Rightarrow>
          (case send upstream (outbound cfg loads path request model) s1 of
             (Inl e, s2) \<Rightarrow> (Inl e, s2)
           | (Inr r, s2) \<Rightarrow> (Inr (relay r), s2)))"


section \<open>Sample values\<close>

text \<open>
  A configuration, \<open>json.loads\<close> on the few bodies the examples use, backends that
  answer every request alike, and a state with nothing sent yet (\<open>cached {} 0\<close> is the
  state right after import).
\<close>

definition sample_cfg :: "bool \<Rightarrow> int \<Rightarrow> config" where
  "sample_cfg auto ttl =
     \<lparr>UPSTREAM_BASE = str ''http://ollama:11434'', DEFAULT_MODEL = str ''qwen3:8b'',
      AUTO_PULL = auto, MODELS_CACHE_TTL_SEC = ttl\<rparr>"

definition sample_loads :: decoder where
  "sample_loads b =
     (if b = ''null'' then Some JNone
      else if b = ''[1]'' then Some (JList [JInt 1])
      else if b = ''{\"model\":\"a\"}'' then Some (JDict [(str ''model'', JStr (str ''a''))])
      else if b = ''{\"n\":1}'' then Some (JDict [(str ''n'', JInt 1)])
      else if b = ''{\"models\":[{\"name\":\"a\"}]}''
        then Some (JDict [(str ''models'', JList [JDict [(str ''name'', JStr (str ''a''))]])])
      else if b = ''{\"models\":[]}'' then Some (JDict [(str ''models'', JList [])])
      else None)"

definition answer :: "nat \<Rightarrow> bytes \<Rightarrow> backend" where
  "answer code b rq =
     Inr \<lparr>status_code = code, r_headers = Map.empty, r_content = b, r_chunks = [b]\<rparr>"

definition unreachable :: backend where
  "unreachable rq = Inl RequestError"

definition cached :: "pystr set \<Rightarrow> real \<Rightarrow> state" where
  "cached names ts = \<lparr>models_cache = names, models_cache_ts = ts, sent = []\<rparr>"

definition json_request :: "(pystr \<rightharpoonup> pystr) \<Rightarrow> bytes \<Rightarrow> request" where
  "json_request q b =
     \<lparr>method = str ''POST'', query_params = q,
      headers = [str ''content-type'' \<mapsto> str ''application/json'', str ''host'' \<mapsto> str ''proxy:8000''],
      body = b\<rparr>"


section \<open>The normalizer and the selector\<close>

lemma strip_all_space:
  assumes "\<forall>c\<in>set s. isspace c"
  shows "strip s = []"
proof -
  from assms have d: "dropWhile isspace s = []" by (induction s) auto
  show ?thesis unfolding strip_def d by simp
qed

lemma strip_Nil: "strip [] = []"
  by (simp add: strip_def)

lemma split1_head_decomp:
  "x \<in> set m \<Longrightarrow> \<exists>post. m = split1_head x m @ x # post"
proof (induction m)
  case Nil
  then show ?case by simp
next
  case (Cons a m)
  then show ?case by (cases "a = x") (auto simp: split1_head_def)
qed

lemma split1_head_no_sep: "x \<notin> set (split1_head x m)"
  by (auto simp: split1_head_def dest: set_takeWhileD)

lemma first_sep_unique:
  "pre @ x # post = pre' @ x # post' \<Longrightarrow> x \<notin> set pre \<Longrightarrow> x \<notin> set pre' \<Longrightarrow> pre = pre'"
proof (induction pre arbitrary: pre')
  case Nil
  then show ?case by (cases pre') auto
next
  case (Cons a pre)
  then show ?case by (cases pre') auto
qed

lemma normalize_model_empty: "normalize_model [] = []"
  by (simp add: normalize_model_def strip_Nil)

text \<open>
  Claim C10. When the trimmed input contains \<open>/\<close>, \<open>_normalize_model\<close> returns the part
  of the trimmed input before its first \<open>/\<close>, trimmed again; an empty or whitespace-only
  input gives the empty string; and \<open>deepseek-r1:latest/chat/completions\<close> gives
  \<open>deepseek-r1:latest\<close>.
\<close>

theorem normalize_model_spec:
  "(slash \<in> set (strip raw) \<longrightarrow>
      (\<exists>pre post. strip raw = pre @ slash # post \<and> slash \<notin> set pre \<and>
         normalize_model raw = strip pre)) \<and>
   ((\<forall>c\<in>set raw. isspace c) \<longrightarrow> normalize_model raw = []) \<and>
   normalize_model (str ''deepseek-r1:latest/chat/completions'') = str ''deepseek-r1:latest''"
proof (intro conjI impI)
  assume sl: "slash \<in> set (strip raw)"
  then obtain post where d: "strip raw = split1_head slash (strip raw) @ slash # post"
    using split1_head_decomp by blast
  from sl have "strip raw \<noteq> []" by auto
  with sl have "normalize_model raw = strip (split1_head slash (strip raw))"
    by (simp add: normalize_model_def)
  with d split1_head_no_sep [of slash "strip raw"]
  show "\<exists>pre post. strip raw = pre @ slash # post \<and> slash \<notin> set pre \<and>
         normalize_model raw = strip pre"
    by blast
next
  assume "\<forall>c\<in>set raw. isspace c"
  then show "normalize_model raw = []"
    by (simp add: normalize_model_def strip_all_space)
next
  show "normalize_model (str ''deepseek-r1:latest/chat/completions'') = str ''deepseek-r1:latest''"
    by (simp add: normalize_model_def strip_def isspace_def split1_head_def slash_def str_def)
qed

text \<open>The same at \<open>" llama3 /v1/chat "\<close> and at two spaces.\<close>

theorem normalize_model_spec_witness:
  "slash \<in> set (strip (str '' llama3 /v1/chat '')) \<and>
   (\<exists>post. strip (str '' llama3 /v1/chat '') = str ''llama3 '' @ slash # post) \<and>
   normalize_model (str '' llama3 /v1/chat '') = str ''llama3'' \<and>
   list_all isspace (str ''  '') \<and> normalize_model (str ''  '') = []"
proof -
  let ?raw = "str '' llama3 /v1/chat ''"
  have s: "strip ?raw = str ''llama3 '' @ slash # str ''v1/chat''"
    by (simp add: strip_def isspace_def slash_def str_def)
  then have h: "slash \<in> set (strip ?raw)" by simp
  have n: "slash \<notin> set (str ''llama3 '')" by (simp add: slash_def str_def)
  from normalize_model_spec [of ?raw] h obtain pre post
    where p: "strip ?raw = pre @ slash # post" "slash \<notin> set pre" "normalize_model ?raw = strip pre"
    by blast
  from p(1) s have "pre @ slash # post = str ''llama3 '' @ slash # str ''v1/chat''" by simp
  from first_sep_unique [OF this p(2) n] have "pre = str ''llama3 ''" .
  with p(3) have r: "normalize_model ?raw = str ''llama3''"
    by (simp add: strip_def isspace_def str_def)
  have w: "\<forall>c\<in>set (str ''  ''). isspace c" by (simp add: isspace_def str_def)
  with normalize_model_spec [of "str ''  ''"] have "normalize_model (str ''  '') = []" by blast
  with h s r w show ?thesis by (simp add: list_all_iff)
qed

lemma pick_model_cases:
  "pick_model cfg request =
     (case query_params request (str ''model'') of
        None \<Rightarrow> DEFAULT_MODEL cfg
      | Some q \<Rightarrow> if normalize_model q = [] then DEFAULT_MODEL cfg else normalize_model q)"
  by (simp add: pick_model_def normalize_model_empty split: option.splits)

text \<open>
  Claim C9. A \<open>model\<close> query parameter whose normalized value is not empty is the
  selected model, whatever the configured default; with no \<open>model\<close> parameter, or one
  whose normalized value is empty, the selected model is the configured default.
\<close>

theorem pick_model_spec:
  "(\<forall>q. query_params request (str ''model'') = Some q \<and> normalize_model q \<noteq> [] \<longrightarrow>
        pick_model cfg request = normalize_model q) \<and>
   (query_params request (str ''model'') = None \<longrightarrow> pick_model cfg request = DEFAULT_MODEL cfg) \<and>
   (\<forall>q. query_params request (str ''model'') = Some q \<and> normalize_model q = [] \<longrightarrow>
        pick_model cfg request = DEFAULT_MODEL cfg)"
  by (simp add: pick_model_cases)

text \<open>The three cases at \<open>?model=foo\<close>, at no parameter and at \<open>?model=%20/chat\<close>.\<close>

theorem pick_model_spec_witness:
  "pick_model (sample_cfg False 10) (json_request [str ''model'' \<mapsto> str ''foo''] []) = str ''foo'' \<and>
   pick_model (sample_cfg False 10) (json_request Map.empty []) = str ''qwen3:8b'' \<and>
   pick_model (sample_cfg False 10) (json_request [str ''model'' \<mapsto> str '' /chat''] []) = str ''qwen3:8b''"
proof -
  let ?cfg = "sample_cfg False 10"
  have a: "normalize_model (str ''foo'') = str ''foo''"
    by (simp add: normalize_model_def strip_def isspace_def slash_def str_def)
  have b: "normalize_model (str '' /chat'') = []"
    by (simp add: normalize_model_def strip_def isspace_def split1_head_def slash_def str_def)
  have c: "DEFAULT_MODEL ?cfg = str ''qwen3:8b''" by (simp add: sample_cfg_def)
  note t = pick_model_spec [of _ ?cfg]
  have "pick_model ?cfg (json_request [str ''model'' \<mapsto> str ''foo''] []) = str ''foo''"
    using t [of "json_request [str ''model'' \<mapsto> str ''foo''] []"] a
    by (simp add: json_request_def str_def)
  moreover have "pick_model ?cfg (json_request Map.empty []) = str ''qwen3:8b''"
    using t [of "json_request Map.empty []"] c by (simp add: json_request_def)
  moreover have "pick_model ?cfg (json_request [str ''model'' \<mapsto> str '' /chat''] []) = str ''qwen3:8b''"
    using t [of "json_request [str ''model'' \<mapsto> str '' /chat''] []"] b c
    by (simp add: json_request_def)
  ultimately show ?thesis by blast
qed


section \<open>The cache and the provisioner\<close>

lemmas sample_defs =
  sample_cfg_def sample_loads_def answer_def unreachable_def cached_def json_request_def

lemmas cache_defs =
  has_model_def fetch_local_models_def send_def tags_request_def pull_request_def
  http_get_def http_post_def is_success_def models_entries_def str_def

lemma fetch_local_models_state:
  "snd (fetch_local_models cfg loads upstream s) = s\<lparr>sent := sent s @ [tags_request cfg]\<rparr>"
  by (simp add: fetch_local_models_def send_def split: sum.splits option.splits)

lemma has_model_fresh:
  "\<not> now - models_cache_ts s > real_of_int (MODELS_CACHE_TTL_SEC cfg) \<Longrightarrow>
   has_model cfg loads upstream now model s = (Inr (model \<in> models_cache s), s)"
  by (simp add: has_model_def)

lemma has_model_expired_sent:
  assumes "now - models_cache_ts s > real_of_int (MODELS_CACHE_TTL_SEC cfg)"
  shows "sent (snd (has_model cfg loads upstream now model s)) = sent s @ [tags_request cfg]"
proof (cases "fetch_local_models cfg loads upstream s")
  case (Pair res s1)
  with fetch_local_models_state [of cfg loads upstream s]
  have "s1 = s\<lparr>sent := sent s @ [tags_request cfg]\<rparr>" by simp
  with Pair assms show ?thesis
    by (cases res) (simp_all add: has_model_def)
qed

lemma has_model_sent:
  "sent (snd (has_model cfg loads upstream now model s)) = sent s \<or>
   sent (snd (has_model cfg loads upstream now model s)) = sent s @ [tags_request cfg]"
proof (cases "now - models_cache_ts s > real_of_int (MODELS_CACHE_TTL_SEC cfg)")
  case True
  then show ?thesis by (simp add: has_model_expired_sent)
next
  case False
  then show ?thesis by (simp add: has_model_fresh)
qed

lemma pull_model_failure:
  "upstream (pull_request cfg model) = Inl e \<Longrightarrow>
   pull_model cfg upstream model s = (Inl e, s\<lparr>sent := sent s @ [pull_request cfg model]\<rparr>)"
  "upstream (pull_request cfg model) = Inr r \<Longrightarrow> \<not> is_success (status_code r) \<Longrightarrow>
   pull_model cfg upstream model s =
     (Inl (HTTPStatusError (status_code r)), s\<lparr>sent := sent s @ [pull_request cfg model]\<rparr>)"
  by (simp_all add: pull_model_def send_def)

lemma pull_model_success:
  "upstream (pull_request cfg model) = Inr r \<Longrightarrow> is_success (status_code r) \<Longrightarrow>
   pull_model cfg upstream model s =
     (Inr (), s\<lparr>sent := sent s @ [pull_request cfg model], models_cache_ts := 0\<rparr>)"
  by (simp add: pull_model_def send_def)

lemma pull_model_sent:
  "sent (snd (pull_model cfg upstream model s)) = sent s @ [pull_request cfg model]"
  by (simp add: pull_model_def send_def split: sum.splits)

lemma pull_model_success_state:
  "pull_model cfg upstream model s = (Inr u, s1) \<Longrightarrow>
   s1 = s\<lparr>sent := sent s @ [pull_request cfg model], models_cache_ts := 0\<rparr>"
  by (auto simp: pull_model_def send_def split: sum.splits if_splits)

lemma tags_request_not_pull: "tags_request cfg \<noteq> pull_request cfg model"
proof
  assume "tags_request cfg = pull_request cfg model"
  then have "json (tags_request cfg) = json (pull_request cfg model)" by simp
  then show False by (simp add: tags_request_def pull_request_def http_get_def http_post_def)
qed

text \<open>
  The three cases of \<open>_ensure_model\<close>. With auto-pull off it returns at once and sends
  nothing: the state, with its list of sent requests, is the one it was given. With
  auto-pull on and the cache check answering that the model is absent, the call sends the
  pull request once, right after what the cache check sent (nothing, or the one listing
  request, which is not a pull), and when the pull succeeds the timestamp is reset to 0
  while the cached set stays. With auto-pull on and the cache check answering that the
  model is present, the call ends there, with no pull. Whether the reset timestamp makes
  the next check refresh is another matter, taken up below.
\<close>

lemma ensure_model_cases:
  "(\<not> AUTO_PULL cfg \<longrightarrow> ensure_model cfg loads upstream now model s = (Inr (), s)) \<and>
   (AUTO_PULL cfg \<and> has_model cfg loads upstream now model s = (Inr False, s1) \<longrightarrow>
      sent (snd (ensure_model cfg loads upstream now model s)) = sent s1 @ [pull_request cfg model] \<and>
      (sent s1 = sent s \<or> sent s1 = sent s @ [tags_request cfg]) \<and>
      tags_request cfg \<noteq> pull_request cfg model \<and>
      (\<forall>r. upstream (pull_request cfg model) = Inr r \<and> is_success (status_code r) \<longrightarrow>
         ensure_model cfg loads upstream now model s =
           (Inr (), s1\<lparr>sent := sent s1 @ [pull_request cfg model], models_cache_ts := 0\<rparr>))) \<and>
   (AUTO_PULL cfg \<and> has_model cfg loads upstream now model s = (Inr True, s1) \<longrightarrow>
      ensure_model cfg loads upstream now model s = (Inr (), s1) \<and>
      (sent s1 = sent s \<or> sent s1 = sent s @ [tags_request cfg]))"
proof (intro conjI impI allI)
  assume "\<not> AUTO_PULL cfg"
  then show "ensure_model cfg loads upstream now model s = (Inr (), s)"
    by (simp add: ensure_model_def)
next
  assume a: "AUTO_PULL cfg \<and> has_model cfg loads upstream now model s = (Inr False, s1)"
  then have e: "ensure_model cfg loads upstream now model s = pull_model cfg upstream model s1"
    by (simp add: ensure_model_def)
  show "sent (snd (ensure_model cfg loads upstream now model s)) = sent s1 @ [pull_request cfg model]"
    by (simp add: e pull_model_sent)
  from a has_model_sent [of cfg loads upstream now model s]
  show "sent s1 = sent s \<or> sent s1 = sent s @ [tags_request cfg]" by simp
  show "tags_request cfg \<noteq> pull_request cfg model" by (rule tags_request_not_pull)
  fix r
  assume "upstream (pull_request cfg model) = Inr r \<and> is_success (status_code r)"
  then show "ensure_model cfg loads upstream now model s =
      (Inr (), s1\<lparr>sent := sent s1 @ [pull_request cfg model], models_cache_ts := 0\<rparr>)"
    by (simp add: e pull_model_success)
next
  assume a: "AUTO_PULL cfg \<and> has_model cfg loads upstream now model s = (Inr True, s1)"
  then show "ensure_model cfg loads upstream now model s = (Inr (), s1)"
    by (simp add: ensure_model_def)
  from a has_model_sent [of cfg loads upstream now model s]
  show "sent s1 = sent s \<or> sent s1 = sent s @ [tags_request cfg]" by simp
qed

text \<open>The three cases on a state right after import, at time 1000 and a TTL of 10.\<close>

lemma ensure_model_cases_sample:
  "ensure_model (sample_cfg False 10) sample_loads unreachable 1000 (str ''a'') (cached {} 0)
     = (Inr (), cached {} 0) \<and>
   ensure_model (sample_cfg True 10) sample_loads (answer 200 ''{\"models\":[]}'') 1000 (str ''a'')
       (cached {} 0)
     = (Inr (), \<lparr>models_cache = {}, models_cache_ts = 0,
                 sent = [tags_request (sample_cfg True 10),
                         pull_request (sample_cfg True 10) (str ''a'')]\<rparr>) \<and>
   ensure_model (sample_cfg True 10) sample_loads (answer 200 ''{\"models\":[{\"name\":\"a\"}]}'')
       1000 (str ''a'') (cached {} 0)
     = (Inr (), \<lparr>models_cache = {str ''a''}, models_cache_ts = 1000,
                 sent = [tags_request (sample_cfg True 10)]\<rparr>)"
proof -
  let ?C = "sample_cfg True 10" and ?a = "str ''a''"
  let ?none = "answer 200 ''{\"models\":[]}''"
  let ?some = "answer 200 ''{\"models\":[{\"name\":\"a\"}]}''"
  let ?s1 = "\<lparr>models_cache = {}, models_cache_ts = 1000, sent = [tags_request ?C]\<rparr>"
  let ?s2 = "\<lparr>models_cache = {?a}, models_cache_ts = 1000, sent = [tags_request ?C]\<rparr>"
  have off: "\<not> AUTO_PULL (sample_cfg False 10)" and on: "AUTO_PULL ?C"
    by (simp_all add: sample_cfg_def)
  have absent: "has_model ?C sample_loads ?none 1000 ?a (cached {} 0) = (Inr False, ?s1)"
    by (simp add: cache_defs sample_defs)
  have present: "has_model ?C sample_loads ?some 1000 ?a (cached {} 0) = (Inr True, ?s2)"
    by (simp add: cache_defs sample_defs)
  have ok: "?none (pull_request ?C ?a) = Inr \<lparr>status_code = 200, r_headers = Map.empty,
      r_content = ''{\"models\":[]}'', r_chunks = [''{\"models\":[]}'']\<rparr>"
    by (simp add: answer_def)
  from ensure_model_cases [of "sample_cfg False 10" sample_loads unreachable 1000 ?a "cached {} 0"] off
  have 1: "ensure_model (sample_cfg False 10) sample_loads unreachable 1000 ?a (cached {} 0)
      = (Inr (), cached {} 0)"
    by blast
  from ensure_model_cases [of ?C sample_loads ?none 1000 ?a "cached {} 0" ?s1] on absent ok
  have 2: "ensure_model ?C sample_loads ?none 1000 ?a (cached {} 0)
      = (Inr (), ?s1\<lparr>sent := sent ?s1 @ [pull_request ?C ?a], models_cache_ts := 0\<rparr>)"
    by (simp add: is_success_def)
  from ensure_model_cases [of ?C sample_loads ?some 1000 ?a "cached {} 0" ?s2] on present
  have 3: "ensure_model ?C sample_loads ?some 1000 ?a (cached {} 0) = (Inr (), ?s2)"
    by blast
  from 1 2 3 show ?thesis by simp
qed

text \<open>
  Claim C4. When \<open>_ensure_model\<close> reaches the pull and the pull fails, by a transport
  error or a status that is not a success, the error is the result of the call, and the
  cached set and the timestamp are the ones the cache check left: only the list of sent
  requests has grown by the pull.
\<close>

theorem ensure_model_pull_failure:
  assumes "AUTO_PULL cfg"
    and "has_model cfg loads upstream now model s = (Inr False, s1)"
  shows "(\<forall>e. upstream (pull_request cfg model) = Inl e \<longrightarrow>
            ensure_model cfg loads upstream now model s =
              (Inl e, s1\<lparr>sent := sent s1 @ [pull_request cfg model]\<rparr>)) \<and>
         (\<forall>r. upstream (pull_request cfg model) = Inr r \<and> \<not> is_success (status_code r) \<longrightarrow>
            ensure_model cfg loads upstream now model s =
              (Inl (HTTPStatusError (status_code r)), s1\<lparr>sent := sent s1 @ [pull_request cfg model]\<rparr>)) \<and>
         models_cache (s1\<lparr>sent := sent s1 @ [pull_request cfg model]\<rparr>) = models_cache s1 \<and>
         models_cache_ts (s1\<lparr>sent := sent s1 @ [pull_request cfg model]\<rparr>) = models_cache_ts s1"
proof -
  from assms have "ensure_model cfg loads upstream now model s = pull_model cfg upstream model s1"
    by (simp add: ensure_model_def)
  then show ?thesis by (simp add: pull_model_failure)
qed

text \<open>An unreachable backend and a backend answering 500, on a cache 5 seconds old.\<close>

theorem ensure_model_pull_failure_witness:
  "ensure_model (sample_cfg True 10) sample_loads unreachable 1000 (str ''a'') (cached {} 995)
     = (Inl RequestError,
        \<lparr>models_cache = {}, models_cache_ts = 995,
         sent = [pull_request (sample_cfg True 10) (str ''a'')]\<rparr>) \<and>
   ensure_model (sample_cfg True 10) sample_loads (answer 500 []) 1000 (str ''a'') (cached {} 995)
     = (Inl (HTTPStatusError 500),
        \<lparr>models_cache = {}, models_cache_ts = 995,
         sent = [pull_request (sample_cfg True 10) (str ''a'')]\<rparr>)"
proof -
  let ?C = "sample_cfg True 10" and ?a = "str ''a''"
  have on: "AUTO_PULL ?C" by (simp add: sample_cfg_def)
  have h1: "has_model ?C sample_loads unreachable 1000 ?a (cached {} 995) = (Inr False, cached {} 995)"
    by (simp add: has_model_def sample_defs)
  have h2: "has_model ?C sample_loads (answer 500 []) 1000 ?a (cached {} 995)
      = (Inr False, cached {} 995)"
    by (simp add: has_model_def sample_defs)
  have f1: "unreachable (pull_request ?C ?a) = Inl RequestError"
    by (simp add: unreachable_def)
  have f2: "answer 500 [] (pull_request ?C ?a)
      = Inr \<lparr>status_code = 500, r_headers = Map.empty, r_content = [], r_chunks = [[]]\<rparr>"
    by (simp add: answer_def)
  from ensure_model_pull_failure [OF on h1] f1
  have 1: "ensure_model ?C sample_loads unreachable 1000 ?a (cached {} 995)
      = (Inl RequestError, (cached {} 995)\<lparr>sent := sent (cached {} 995) @ [pull_request ?C ?a]\<rparr>)"
    by blast
  from ensure_model_pull_failure [OF on h2] f2
  have 2: "ensure_model ?C sample_loads (answer 500 []) 1000 ?a (cached {} 995)
      = (Inl (HTTPStatusError 500),
         (cached {} 995)\<lparr>sent := sent (cached {} 995) @ [pull_request ?C ?a]\<rparr>)"
    by (simp add: is_success_def)
  from 1 2 show ?thesis by (simp add: cached_def)
qed

text \<open>A transport error and a status that is not a success are two ways for the fetch to fail.\<close>

lemma fetch_local_models_failure:
  "upstream (tags_request cfg) = Inl e \<Longrightarrow>
   fetch_local_models cfg loads upstream s = (Inl e, s\<lparr>sent := sent s @ [tags_request cfg]\<rparr>)"
  "upstream (tags_request cfg) = Inr r \<Longrightarrow> \<not> is_success (status_code r) \<Longrightarrow>
   fetch_local_models cfg loads upstream s =
     (Inl (HTTPStatusError (status_code r)), s\<lparr>sent := sent s @ [tags_request cfg]\<rparr>)"
  by (simp_all add: fetch_local_models_def send_def)

text \<open>
  Claim C5. When the TTL has expired and fetching the list fails, \<open>_has_model\<close> returns
  the error, the cached set and the timestamp are unchanged, and a later call (at the
  same clock reading or after) sends the listing request again.
\<close>

theorem has_model_fetch_failure:
  assumes "now - models_cache_ts s > real_of_int (MODELS_CACHE_TTL_SEC cfg)"
    and "fetch_local_models cfg loads upstream s = (Inl e, s1)"
  shows "has_model cfg loads upstream now model s = (Inl e, s1) \<and>
         models_cache s1 = models_cache s \<and> models_cache_ts s1 = models_cache_ts s \<and>
         sent s1 = sent s @ [tags_request cfg] \<and>
         (\<forall>now' loads' upstream' model'. now \<le> now' \<longrightarrow>
            sent (snd (has_model cfg loads' upstream' now' model' s1)) = sent s1 @ [tags_request cfg])"
proof -
  from assms have h: "has_model cfg loads upstream now model s = (Inl e, s1)"
    by (simp add: has_model_def)
  from assms(2) fetch_local_models_state [of cfg loads upstream s]
  have s1: "s1 = s\<lparr>sent := sent s @ [tags_request cfg]\<rparr>" by simp
  have "sent (snd (has_model cfg loads' upstream' now' model' s1)) = sent s1 @ [tags_request cfg]"
    if "now \<le> now'" for now' loads' upstream' model'
  proof -
    from that assms(1) s1 have "now' - models_cache_ts s1 > real_of_int (MODELS_CACHE_TTL_SEC cfg)"
      by simp
    then show ?thesis by (rule has_model_expired_sent)
  qed
  with h s1 show ?thesis by simp
qed

text \<open>A stale cache, a backend answering 500, and a second call one second later.\<close>

theorem has_model_fetch_failure_witness:
  "has_model (sample_cfg True 10) sample_loads (answer 500 []) 1000 (str ''b'')
       (cached {str ''a''} 100)
     = (Inl (HTTPStatusError 500),
        \<lparr>models_cache = {str ''a''}, models_cache_ts = 100,
         sent = [tags_request (sample_cfg True 10)]\<rparr>) \<and>
   sent (snd (has_model (sample_cfg True 10) sample_loads (answer 200 ''{\"models\":[]}'') 1001
                (str ''b'')
                \<lparr>models_cache = {str ''a''}, models_cache_ts = 100,
                 sent = [tags_request (sample_cfg True 10)]\<rparr>))
     = [tags_request (sample_cfg True 10), tags_request (sample_cfg True 10)]"
proof -
  let ?C = "sample_cfg True 10" and ?b = "str ''b''"
  let ?s = "cached {str ''a''} 100"
  let ?s1 = "\<lparr>models_cache = {str ''a''}, models_cache_ts = 100, sent = [tags_request ?C]\<rparr>"
  have old: "1000 - models_cache_ts ?s > real_of_int (MODELS_CACHE_TTL_SEC ?C)"
    by (simp add: sample_defs)
  have fails: "fetch_local_models ?C sample_loads (answer 500 []) ?s = (Inl (HTTPStatusError 500), ?s1)"
    by (simp add: cache_defs sample_defs)
  have later: "(1000::real) \<le> 1001" by simp
  note t = has_model_fetch_failure [OF old fails, of ?b]
  from t have 1: "has_model ?C sample_loads (answer 500 []) 1000 ?b ?s = (Inl (HTTPStatusError 500), ?s1)"
    by blast
  from t later
  have 2: "sent (snd (has_model ?C sample_loads (answer 200 ''{\"models\":[]}'') 1001 ?b ?s1))
      = sent ?s1 @ [tags_request ?C]"
    by blast
  from 1 2 show ?thesis by simp
qed

text \<open>
  What the reset achieves. After \<open>_pull_model\<close> has succeeded the timestamp is 0, and the
  next \<open>_has_model\<close> call, at clock reading \<open>now\<close>, refreshes the list when the configured
  TTL is below \<open>now\<close>; when it is not, the call sends nothing and answers from the cached
  set: the value 0 does not stand for "expired" under every TTL.
\<close>

lemma reset_then_has_model:
  assumes "pull_model cfg upstream model s = (Inr (), s1)"
  shows "models_cache_ts s1 = 0 \<and> models_cache s1 = models_cache s \<and>
         (\<forall>now loads' upstream' model'.
            (real_of_int (MODELS_CACHE_TTL_SEC cfg) < now \<longrightarrow>
               sent (snd (has_model cfg loads' upstream' now model' s1)) = sent s1 @ [tags_request cfg]) \<and>
            (now \<le> real_of_int (MODELS_CACHE_TTL_SEC cfg) \<longrightarrow>
               has_model cfg loads' upstream' now model' s1 = (Inr (model' \<in> models_cache s1), s1)))"
proof -
  from pull_model_success_state [OF assms]
  have s1: "s1 = s\<lparr>sent := sent s @ [pull_request cfg model], models_cache_ts := 0\<rparr>" .
  then have ts: "models_cache_ts s1 = 0" and c: "models_cache s1 = models_cache s" by simp_all
  have "sent (snd (has_model cfg loads' upstream' now model' s1)) = sent s1 @ [tags_request cfg]"
    if "real_of_int (MODELS_CACHE_TTL_SEC cfg) < now" for now loads' upstream' model'
    using that ts by (intro has_model_expired_sent) simp
  moreover have "has_model cfg loads' upstream' now model' s1 = (Inr (model' \<in> models_cache s1), s1)"
    if "now \<le> real_of_int (MODELS_CACHE_TTL_SEC cfg)" for now loads' upstream' model'
    using that ts by (intro has_model_fresh) simp
  ultimately show ?thesis using ts c by blast
qed

text \<open>A TTL of 10: a call at time 1000 refreshes, a call at time 10 does not.\<close>

lemma reset_then_has_model_sample:
  "pull_model (sample_cfg True 10) (answer 200 []) (str ''a'') (cached {} 995)
     = (Inr (), \<lparr>models_cache = {}, models_cache_ts = 0,
                 sent = [pull_request (sample_cfg True 10) (str ''a'')]\<rparr>) \<and>
   sent (snd (has_model (sample_cfg True 10) sample_loads
                (answer 200 ''{\"models\":[{\"name\":\"a\"}]}'') 1000 (str ''a'')
                \<lparr>models_cache = {}, models_cache_ts = 0,
                 sent = [pull_request (sample_cfg True 10) (str ''a'')]\<rparr>))
     = [pull_request (sample_cfg True 10) (str ''a''), tags_request (sample_cfg True 10)] \<and>
   has_model (sample_cfg True 10) sample_loads (answer 200 ''{\"models\":[{\"name\":\"a\"}]}'')
       10 (str ''a'')
       \<lparr>models_cache = {}, models_cache_ts = 0,
        sent = [pull_request (sample_cfg True 10) (str ''a'')]\<rparr>
     = (Inr False, \<lparr>models_cache = {}, models_cache_ts = 0,
                    sent = [pull_request (sample_cfg True 10) (str ''a'')]\<rparr>)"
proof -
  let ?C = "sample_cfg True 10" and ?a = "str ''a''"
  let ?B = "answer 200 ''{\"models\":[{\"name\":\"a\"}]}''"
  let ?s1 = "\<lparr>models_cache = {}, models_cache_ts = 0, sent = [pull_request ?C ?a]\<rparr>"
  have p: "pull_model ?C (answer 200 []) ?a (cached {} 995) = (Inr (), ?s1)"
    by (simp add: pull_model_def send_def is_success_def sample_defs)
  have late: "real_of_int (MODELS_CACHE_TTL_SEC ?C) < 1000"
    and early: "10 \<le> real_of_int (MODELS_CACHE_TTL_SEC ?C)"
    by (simp_all add: sample_cfg_def)
  note t = reset_then_has_model [OF p]
  from t late have 1: "sent (snd (has_model ?C sample_loads ?B 1000 ?a ?s1)) = sent ?s1 @ [tags_request ?C]"
    by blast
  from t early have 2: "has_model ?C sample_loads ?B 10 ?a ?s1 = (Inr (?a \<in> models_cache ?s1), ?s1)"
    by blast
  from p 1 2 show ?thesis by simp
qed

text \<open>
  Claim C6. The claim is that after invalidation the next \<open>_has_model\<close> call refreshes
  the list from the backend, however large the configured TTL. The source resets the
  timestamp under the comment "refresh the cache", and misses for a large TTL: with
  \<open>MODELS_CACHE_TTL_SEC=10000000000\<close> and the clock at 1800000000, the call after a
  successful pull sends nothing and answers from the old cached set that the model is
  absent, though the backend would list it.
\<close>

theorem invalidate_huge_ttl_no_refresh:
  "pull_model (sample_cfg True 10000000000) (answer 200 []) (str ''a'') (cached {} 995)
     = (Inr (), \<lparr>models_cache = {}, models_cache_ts = 0,
                 sent = [pull_request (sample_cfg True 10000000000) (str ''a'')]\<rparr>) \<and>
   has_model (sample_cfg True 10000000000) sample_loads
       (answer 200 ''{\"models\":[{\"name\":\"a\"}]}'') 1800000000 (str ''a'')
       \<lparr>models_cache = {}, models_cache_ts = 0,
        sent = [pull_request (sample_cfg True 10000000000) (str ''a'')]\<rparr>
     = (Inr False, \<lparr>models_cache = {}, models_cache_ts = 0,
                    sent = [pull_request (sample_cfg True 10000000000) (str ''a'')]\<rparr>)"
  by (simp add: pull_model_def has_model_def send_def is_success_def sample_defs)


text \<open>
  Claim C3. The claim is that \<open>_ensure_model\<close> sends nothing with auto-pull off, sends
  no pull when the model is present, and, when the model is absent, sends one pull and
  then invalidates the cache so that the next availability check refreshes. The first
  parts hold (\<open>ensure_model_cases\<close>). The last one fails, because the timestamp 0
  does not stand for "expired" under every TTL: with auto-pull on, \<open>MODELS_CACHE_TTL_SEC=10000000000\<close> and the clock at 1800000000,
  a call on the state right after import sends exactly one pull, which succeeds, and
  resets the timestamp; the availability check one second later sends nothing and still
  answers that the model is absent.
\<close>

theorem ensure_model_huge_ttl_no_refresh:
  "ensure_model (sample_cfg True 10000000000) sample_loads
       (answer 200 ''{\"models\":[{\"name\":\"a\"}]}'') 1800000000 (str ''a'') (cached {} 0)
     = (Inr (), \<lparr>models_cache = {}, models_cache_ts = 0,
                 sent = [pull_request (sample_cfg True 10000000000) (str ''a'')]\<rparr>) \<and>
   has_model (sample_cfg True 10000000000) sample_loads
       (answer 200 ''{\"models\":[{\"name\":\"a\"}]}'') 1800000001 (str ''a'')
       \<lparr>models_cache = {}, models_cache_ts = 0,
        sent = [pull_request (sample_cfg True 10000000000) (str ''a'')]\<rparr>
     = (Inr False, \<lparr>models_cache = {}, models_cache_ts = 0,
                    sent = [pull_request (sample_cfg True 10000000000) (str ''a'')]\<rparr>)"
  by (simp add: ensure_model_def pull_model_def has_model_def send_def is_success_def sample_defs)


section \<open>The handlers\<close>

lemmas proxy_defs =
  proxy_v1_def ensure_model_def send_def outbound_def content_type_def lower_def lower_cp_def
  apply_model_def pick_model_def normalize_model_def strip_def isspace_def slash_def
  split1_head_def str_def Let_def

lemma ensure_model_off: "\<not> AUTO_PULL cfg \<Longrightarrow> ensure_model cfg loads upstream now model s = (Inr (), s)"
  by (simp add: ensure_model_def)

lemma proxy_v1_sent:
  "ensure_model cfg loads upstream now (pick_model cfg request) s = (Inr u, s1) \<Longrightarrow>
   sent (snd (proxy_v1 cfg loads upstream now path request s)) =
     sent s1 @ [outbound cfg loads path request (pick_model cfg request)]"
  by (simp add: proxy_v1_def send_def Let_def split: sum.splits)

lemma proxy_v1_not_provisioned:
  "ensure_model cfg loads upstream now (pick_model cfg request) s = (Inl e, s1) \<Longrightarrow>
   proxy_v1 cfg loads upstream now path request s = (Inl e, s1)"
  by (simp add: proxy_v1_def Let_def)

lemma outbound_headers:
  "o_headers (outbound cfg loads path request model) =
     headers request |` (- {str ''content-length'', str ''transfer-encoding'', str ''host''})"
  by (rule ext) (simp add: outbound_def Let_def restrict_map_def split: prod.splits)

lemma outbound_params:
  "params (outbound cfg loads path request model) = query_params request |` (- {str ''model''})"
  by (rule ext) (simp add: outbound_def Let_def restrict_map_def split: prod.splits)


lemma outbound_decoded:
  "str_in (str ''application/json'') (lower (content_type request)) \<Longrightarrow> body request \<noteq> [] \<Longrightarrow>
   loads (body request) = Some payload \<Longrightarrow>
   json (outbound cfg loads path request model) =
     apply_model payload model (str ''model'' \<in> dom (query_params request)) \<and>
   content (outbound cfg loads path request model) =
     (if apply_model payload model (str ''model'' \<in> dom (query_params request)) = JNone
      then Some [] else None)"
  by (simp add: outbound_def Let_def)




text \<open>
  Claim C7. Once provisioning has succeeded, \<open>proxy_v1\<close> sends one request more, whose
  headers are the inbound headers without the keys \<open>content-length\<close>,
  \<open>transfer-encoding\<close> and \<open>host\<close>, every other header as it was, and whose query
  parameters are the inbound ones without the key \<open>model\<close>, every other one as it was.
\<close>

theorem proxy_v1_headers_params:
  assumes "ensure_model cfg loads upstream now (pick_model cfg request) s = (Inr (), s1)"
  shows "\<exists>rq. sent (snd (proxy_v1 cfg loads upstream now path request s)) = sent s1 @ [rq] \<and>
    o_headers rq =
      headers request |` (- {str ''content-length'', str ''transfer-encoding'', str ''host''}) \<and>
    params rq = query_params request |` (- {str ''model''})"
  using proxy_v1_sent [OF assms] by (simp add: outbound_headers outbound_params)

text \<open>A request with \<open>?model=b&x=1\<close> and the headers \<open>content-type\<close> and \<open>host\<close>.\<close>

theorem proxy_v1_headers_params_witness:
  "o_headers (last (sent (snd (proxy_v1 (sample_cfg False 10) sample_loads (answer 200 []) 1000
      (str ''chat/completions'')
      (json_request [str ''model'' \<mapsto> str ''b'', str ''x'' \<mapsto> str ''1''] ''{\"model\":\"a\"}'')
      (cached {} 0))))) (str ''host'') = None \<and>
   o_headers (last (sent (snd (proxy_v1 (sample_cfg False 10) sample_loads (answer 200 []) 1000
      (str ''chat/completions'')
      (json_request [str ''model'' \<mapsto> str ''b'', str ''x'' \<mapsto> str ''1''] ''{\"model\":\"a\"}'')
      (cached {} 0))))) (str ''content-type'') = Some (str ''application/json'') \<and>
   params (last (sent (snd (proxy_v1 (sample_cfg False 10) sample_loads (answer 200 []) 1000
      (str ''chat/completions'')
      (json_request [str ''model'' \<mapsto> str ''b'', str ''x'' \<mapsto> str ''1''] ''{\"model\":\"a\"}'')
      (cached {} 0))))) (str ''model'') = None \<and>
   params (last (sent (snd (proxy_v1 (sample_cfg False 10) sample_loads (answer 200 []) 1000
      (str ''chat/completions'')
      (json_request [str ''model'' \<mapsto> str ''b'', str ''x'' \<mapsto> str ''1''] ''{\"model\":\"a\"}'')
      (cached {} 0))))) (str ''x'') = Some (str ''1'')"
proof -
  let ?C = "sample_cfg False 10"
  let ?req = "json_request [str ''model'' \<mapsto> str ''b'', str ''x'' \<mapsto> str ''1''] ''{\"model\":\"a\"}''"
  have off: "\<not> AUTO_PULL ?C" by (simp add: sample_cfg_def)
  have h: "ensure_model ?C sample_loads (answer 200 []) 1000 (pick_model ?C ?req) (cached {} 0)
      = (Inr (), cached {} 0)"
    by (rule ensure_model_off [OF off])
  from proxy_v1_headers_params [OF h, of "str ''chat/completions''"] obtain rq where
    s: "sent (snd (proxy_v1 ?C sample_loads (answer 200 []) 1000 (str ''chat/completions'') ?req
          (cached {} 0))) = sent (cached {} 0) @ [rq]"
    and hd: "o_headers rq =
      headers ?req |` (- {str ''content-length'', str ''transfer-encoding'', str ''host''})"
    and pr: "params rq = query_params ?req |` (- {str ''model''})"
    by blast
  from s have l: "last (sent (snd (proxy_v1 ?C sample_loads (answer 200 []) 1000
      (str ''chat/completions'') ?req (cached {} 0)))) = rq"
    by simp
  show ?thesis
    unfolding l hd pr by (simp add: restrict_map_def json_request_def str_def)
qed

text \<open>
  Claim C1. For a request with a JSON content type whose body decodes to an object, the
  request sent on carries an object and no raw bytes. Every field but \<open>model\<close> is as it
  was. With a \<open>model\<close> query parameter the \<open>model\<close> field is the selected model,
  whatever the body said (the normalized parameter when that is not empty). With no
  \<open>model\<close> query parameter an object that has a \<open>model\<close> field is unchanged, and one
  that lacks it gets the configured default.
\<close>

theorem proxy_v1_model_rewrite:
  assumes "ensure_model cfg loads upstream now (pick_model cfg request) s = (Inr (), s1)"
    and "str_in (str ''application/json'') (lower (content_type request))"
    and "body request \<noteq> []"
    and "loads (body request) = Some (JDict kvs)"
  shows "\<exists>rq kvs'. sent (snd (proxy_v1 cfg loads upstream now path request s)) = sent s1 @ [rq] \<and>
    content rq = None \<and> json rq = JDict kvs' \<and>
    (\<forall>k. k \<noteq> str ''model'' \<longrightarrow> map_of kvs' k = map_of kvs k) \<and>
    (\<forall>q. query_params request (str ''model'') = Some q \<longrightarrow>
       map_of kvs' (str ''model'') = Some (JStr (pick_model cfg request)) \<and>
       (normalize_model q \<noteq> [] \<longrightarrow> map_of kvs' (str ''model'') = Some (JStr (normalize_model q)))) \<and>
    (query_params request (str ''model'') = None \<longrightarrow>
       (map_of kvs (str ''model'') \<noteq> None \<longrightarrow> kvs' = kvs) \<and>
       (map_of kvs (str ''model'') = None \<longrightarrow>
          map_of kvs' (str ''model'') = Some (JStr (DEFAULT_MODEL cfg))))"
proof -
  let ?model = "pick_model cfg request"
  let ?force = "str ''model'' \<in> dom (query_params request)"
  let ?rq = "outbound cfg loads path request ?model"
  have "\<exists>kvs'. apply_model (JDict kvs) ?model ?force = JDict kvs'"
    by (simp add: apply_model_def)
  then obtain kvs' where k: "apply_model (JDict kvs) ?model ?force = JDict kvs'" ..
  from outbound_decoded [where loads = loads and request = request and payload = "JDict kvs"
      and cfg = cfg and path = path and model = ?model, OF assms(2,3,4)] k
  have j: "json ?rq = JDict kvs'" and c: "content ?rq = None" by simp_all
  from k have other: "map_of kvs' k = map_of kvs k" if "k \<noteq> str ''model''" for k
    using that by (auto simp: apply_model_def update_conv' split: if_splits)
  have forced: "map_of kvs' (str ''model'') = Some (JStr ?model) \<and>
      (normalize_model q \<noteq> [] \<longrightarrow> map_of kvs' (str ''model'') = Some (JStr (normalize_model q)))"
    if "query_params request (str ''model'') = Some q" for q
  proof -
    from that have "?force" by auto
    with k have "map_of kvs' (str ''model'') = Some (JStr ?model)"
      by (auto simp: apply_model_def update_conv')
    moreover from that have "normalize_model q \<noteq> [] \<Longrightarrow> ?model = normalize_model q"
      by (simp add: pick_model_cases)
    ultimately show ?thesis by simp
  qed
  have unforced: "(map_of kvs (str ''model'') \<noteq> None \<longrightarrow> kvs' = kvs) \<and>
      (map_of kvs (str ''model'') = None \<longrightarrow>
         map_of kvs' (str ''model'') = Some (JStr (DEFAULT_MODEL cfg)))"
    if "query_params request (str ''model'') = None"
  proof -
    from that have "\<not> ?force" by auto
    moreover from that have "?model = DEFAULT_MODEL cfg" by (simp add: pick_model_cases)
    ultimately show ?thesis using k by (auto simp: apply_model_def update_conv' split: if_splits)
  qed
  show ?thesis
  proof (intro exI conjI allI impI)
    show "sent (snd (proxy_v1 cfg loads upstream now path request s)) = sent s1 @ [?rq]"
      by (rule proxy_v1_sent [OF assms(1)])
    show "content ?rq = None" by (rule c)
    show "json ?rq = JDict kvs'" by (rule j)
  next
    fix k assume "k \<noteq> str ''model''"
    then show "map_of kvs' k = map_of kvs k" by (rule other)
  next
    fix q assume q: "query_params request (str ''model'') = Some q"
    from forced [OF q] show "map_of kvs' (str ''model'') = Some (JStr ?model)" by (rule conjunct1)
    assume "normalize_model q \<noteq> []"
    with forced [OF q] show "map_of kvs' (str ''model'') = Some (JStr (normalize_model q))" by blast
  next
    assume n: "query_params request (str ''model'') = None"
    {
      assume "map_of kvs (str ''model'') \<noteq> None"
      with unforced [OF n] show "kvs' = kvs" by blast
    }
    {
      assume "map_of kvs (str ''model'') = None"
      with unforced [OF n] show "map_of kvs' (str ''model'') = Some (JStr (DEFAULT_MODEL cfg))"
        by blast
    }
  qed
qed

text \<open>
  The body \<open>{"model":"a"}\<close> with \<open>?model=b\<close> and with no parameter, and the body
  \<open>{"n":1}\<close> with no parameter.
\<close>

theorem proxy_v1_model_rewrite_witness:
  "json (last (sent (snd (proxy_v1 (sample_cfg False 10) sample_loads (answer 200 []) 1000
      (str ''chat/completions'') (json_request [str ''model'' \<mapsto> str ''b''] ''{\"model\":\"a\"}'')
      (cached {} 0))))) = JDict [(str ''model'', JStr (str ''b''))] \<and>
   json (last (sent (snd (proxy_v1 (sample_cfg False 10) sample_loads (answer 200 []) 1000
      (str ''chat/completions'') (json_request Map.empty ''{\"model\":\"a\"}'')
      (cached {} 0))))) = JDict [(str ''model'', JStr (str ''a''))] \<and>
   json (last (sent (snd (proxy_v1 (sample_cfg False 10) sample_loads (answer 200 []) 1000
      (str ''chat/completions'') (json_request Map.empty ''{\"n\":1}'')
      (cached {} 0))))) = JDict [(str ''n'', JInt 1), (str ''model'', JStr (str ''qwen3:8b''))]"
proof -
  let ?C = "sample_cfg False 10" and ?B = "answer 200 []" and ?p = "str ''chat/completions''"
  let ?r1 = "json_request [str ''model'' \<mapsto> str ''b''] ''{\"model\":\"a\"}''"
  let ?r2 = "json_request Map.empty ''{\"model\":\"a\"}''"
  let ?r3 = "json_request Map.empty ''{\"n\":1}''"
  have off: "\<not> AUTO_PULL ?C" by (simp add: sample_cfg_def)
  note e = ensure_model_off [OF off, of sample_loads ?B 1000 _ "cached {} 0"]
  have ct: "str_in (str ''application/json'') (lower (content_type (json_request q b)))" for q b
    by (simp add: json_request_def content_type_def lower_def lower_cp_def str_def)
  have b1: "body ?r1 \<noteq> []" and b2: "body ?r2 \<noteq> []" and b3: "body ?r3 \<noteq> []"
    by (simp_all add: json_request_def)
  have d1: "sample_loads (body ?r1) = Some (JDict [(str ''model'', JStr (str ''a''))])"
    and d2: "sample_loads (body ?r2) = Some (JDict [(str ''model'', JStr (str ''a''))])"
    and d3: "sample_loads (body ?r3) = Some (JDict [(str ''n'', JInt 1)])"
    by (simp_all add: json_request_def sample_loads_def)
  have ev1: "json (last (sent (snd (proxy_v1 ?C sample_loads ?B 1000 ?p ?r1 (cached {} 0)))))
      = JDict [(str ''model'', JStr (str ''b''))]"
    by (simp add: proxy_defs sample_defs)
  have ev3: "json (last (sent (snd (proxy_v1 ?C sample_loads ?B 1000 ?p ?r3 (cached {} 0)))))
      = JDict [(str ''n'', JInt 1), (str ''model'', JStr (str ''qwen3:8b''))]"
    by (simp add: proxy_defs sample_defs)
  from proxy_v1_model_rewrite [OF e ct b1 d1, of ?p] obtain rq1 kvs1 where
    "sent (snd (proxy_v1 ?C sample_loads ?B 1000 ?p ?r1 (cached {} 0))) = sent (cached {} 0) @ [rq1]"
    "json rq1 = JDict kvs1"
    "map_of kvs1 (str ''model'') = Some (JStr (pick_model ?C ?r1))"
    by (auto simp: json_request_def)
  with ev1 have 1: "map_of kvs1 (str ''model'') = Some (JStr (str ''b''))" by (simp add: str_def)
  from proxy_v1_model_rewrite [OF e ct b2 d2, of ?p] obtain rq2 kvs2 where
    "sent (snd (proxy_v1 ?C sample_loads ?B 1000 ?p ?r2 (cached {} 0))) = sent (cached {} 0) @ [rq2]"
    "json rq2 = JDict kvs2"
    "kvs2 = [(str ''model'', JStr (str ''a''))]"
    by (auto simp: json_request_def str_def)
  then have 2: "json (last (sent (snd (proxy_v1 ?C sample_loads ?B 1000 ?p ?r2 (cached {} 0)))))
      = JDict [(str ''model'', JStr (str ''a''))]"
    by simp
  from proxy_v1_model_rewrite [OF e ct b3 d3, of ?p] obtain rq3 kvs3 where
    "sent (snd (proxy_v1 ?C sample_loads ?B 1000 ?p ?r3 (cached {} 0))) = sent (cached {} 0) @ [rq3]"
    "json rq3 = JDict kvs3"
    "map_of kvs3 (str ''model'') = Some (JStr (DEFAULT_MODEL ?C))"
    by (auto simp: json_request_def str_def)
  with ev3 have 3: "map_of kvs3 (str ''model'') = Some (JStr (str ''qwen3:8b''))"
    by (simp add: str_def)
  from ev1 1 2 ev3 3 show ?thesis by simp
qed




text \<open>
  Claim C8. When the backend answers \<open>GET /v1/models\<close> with a status other than 200,
  \<open>models\<close> returns the one-entry list naming the configured default model; when it
  answers 200, \<open>models\<close> returns the decoded body as it is.
\<close>

theorem models_spec:
  assumes "upstream (models_request cfg) = Inr r"
  shows "(status_code r \<noteq> 200 \<longrightarrow>
            fst (models cfg loads upstream s) =
              Inr (JDict [(str ''object'', JStr (str ''list'')),
                          (str ''data'',
                           JList [JDict [(str ''id'', JStr (DEFAULT_MODEL cfg)),
                                         (str ''object'', JStr (str ''model'')),
                                         (str ''owned_by'', JStr (str ''ollama''))]])])) \<and>
         (\<forall>j. status_code r = 200 \<and> loads (r_content r) = Some j \<longrightarrow>
            fst (models cfg loads upstream s) = Inr j) \<and>
         sent (snd (models cfg loads upstream s)) = sent s @ [models_request cfg]"
  using assms by (auto simp: models_def send_def split: option.splits)

text \<open>A backend answering 404, and one answering 200 with the body \<open>{"n":1}\<close>.\<close>

theorem models_spec_witness:
  "fst (models (sample_cfg False 10) sample_loads (answer 404 []) (cached {} 0))
     = Inr (JDict [(str ''object'', JStr (str ''list'')),
                   (str ''data'',
                    JList [JDict [(str ''id'', JStr (str ''qwen3:8b'')),
                                  (str ''object'', JStr (str ''model'')),
                                  (str ''owned_by'', JStr (str ''ollama''))]])]) \<and>
   fst (models (sample_cfg False 10) sample_loads (answer 200 ''{\"n\":1}'') (cached {} 0))
     = Inr (JDict [(str ''n'', JInt 1)])"
proof -
  let ?C = "sample_cfg False 10"
  let ?r404 = "\<lparr>status_code = 404, r_headers = Map.empty, r_content = [], r_chunks = [[]]\<rparr>"
  let ?r200 = "\<lparr>status_code = 200, r_headers = Map.empty, r_content = ''{\"n\":1}'',
      r_chunks = [''{\"n\":1}'']\<rparr>"
  have a: "answer 404 [] (models_request ?C) = Inr ?r404"
    and b: "answer 200 ''{\"n\":1}'' (models_request ?C) = Inr ?r200"
    by (simp_all add: answer_def)
  have n: "status_code ?r404 \<noteq> 200" by simp
  have y: "status_code ?r200 = 200 \<and> sample_loads (r_content ?r200) = Some (JDict [(str ''n'', JInt 1)])"
    by (simp add: sample_loads_def)
  from models_spec [where upstream = "answer 404 []" and cfg = ?C and r = ?r404
      and loads = sample_loads and s = "cached {} 0", OF a] n
  have 1: "fst (models ?C sample_loads (answer 404 []) (cached {} 0))
     = Inr (JDict [(str ''object'', JStr (str ''list'')),
                   (str ''data'',
                    JList [JDict [(str ''id'', JStr (DEFAULT_MODEL ?C)),
                                  (str ''object'', JStr (str ''model'')),
                                  (str ''owned_by'', JStr (str ''ollama''))]])])"
    by blast
  from models_spec [where upstream = "answer 200 ''{\"n\":1}''" and cfg = ?C and r = ?r200
      and loads = sample_loads and s = "cached {} 0", OF b] y
  have 2: "fst (models ?C sample_loads (answer 200 ''{\"n\":1}'') (cached {} 0))
     = Inr (JDict [(str ''n'', JInt 1)])"
    by blast
  from 1 2 show ?thesis by (simp add: sample_cfg_def)
qed

end
